theory Spec2Isabelle
  imports
    Main
    "HOL-Library.Sublist"
    "HOL-Library.Char_ord"
    "HOL-Library.List_Lexorder"
    "HOL-Library.AList"
begin

section \<open>Python values used by \<open>npb/classes/setup.py\<close>\<close>

text \<open>
  Strings are lists of characters, compared character by character as Python compares
  \<open>str\<close> values (\<open>Char_ord\<close> orders characters by code, \<open>List_Lexorder\<close> orders
  lists lexicographically, a proper prefix being smaller). File names are taken to be
  ASCII. An exception is a value of type \<open>error\<close>; a function that may raise returns
  \<open>error + 'a\<close>, and a \<open>try\<close> whose bare \<open>except\<close> swallows every exception is an
  \<open>option\<close> computation whose \<open>None\<close> selects the handler.
\<close>

datatype error =
    ErrorMessage string
  | NameError string
  | FileNotFoundError string
  | RegexError string
  | SpiceError string

text \<open>
  Modelled from the spec: \<open>error_message\<close> of \<open>npb.classes.log\<close> is not among the
  sources. Section 7 of the specification makes every error it reports terminal for the
  current run, so a call \<open>error_message(msg)\<close> is the raise of \<open>ErrorMessage msg\<close>.
\<close>

definition error_message :: "string \<Rightarrow> error + 'a" where
  "error_message msg = Inl (ErrorMessage msg)"

subsection \<open>Substring test, \<open>str.replace\<close> and \<open>str.split\<close>\<close>

text \<open>\<open>sub in s\<close>: \<open>sub\<close> occurs in \<open>s\<close> as a contiguous substring.\<close>

fun py_in :: "string \<Rightarrow> string \<Rightarrow> bool" where
  "py_in sub [] = (sub = [])"
| "py_in sub (c # cs) = (prefix sub (c # cs) \<or> py_in sub cs)"

text \<open>
  \<open>s.replace(old, new)\<close>: every occurrence of \<open>old\<close>, found from left to right without
  overlap, is replaced. For an empty \<open>old\<close> Python puts \<open>new\<close> around every character.
\<close>

function py_replace :: "string \<Rightarrow> string \<Rightarrow> string \<Rightarrow> string" where
  "py_replace old new [] = (if old = [] then new else [])"
| "py_replace old new (c # cs) =
     (if old = [] then new @ c # py_replace old new cs
      else if prefix old (c # cs)
        then new @ py_replace old new (drop (length old) (c # cs))
      else c # py_replace old new cs)"
  by pat_completeness auto
termination
  by (relation "measure (\<lambda>(old, new, s). length s)") auto

text \<open>
  \<open>s.split(sep)\<close>: the pieces between the occurrences of \<open>sep\<close>, found from left to
  right without overlap; an empty separator raises \<open>ValueError\<close>.
\<close>

function split_from :: "string \<Rightarrow> string \<Rightarrow> string \<Rightarrow> string list" where
  "split_from sep acc [] = [acc]"
| "split_from sep acc (c # cs) =
     (if sep \<noteq> [] \<and> prefix sep (c # cs)
        then acc # split_from sep [] (drop (length sep) (c # cs))
      else split_from sep (acc @ [c]) cs)"
  by pat_completeness auto
termination
  by (relation "measure (\<lambda>(sep, acc, s). length s)") auto

definition py_split :: "string \<Rightarrow> string \<Rightarrow> string list option" where
  "py_split sep s = (if sep = [] then None else Some (split_from sep [] s))"

text \<open>\<open>xs[0]\<close> and \<open>xs[-1]\<close>: \<open>None\<close> is the \<open>IndexError\<close> of an empty list.\<close>

definition py_first :: "'a list \<Rightarrow> 'a option" where
  "py_first xs = (case xs of [] \<Rightarrow> None | x # _ \<Rightarrow> Some x)"

definition py_last :: "'a list \<Rightarrow> 'a option" where
  "py_last xs = (case xs of [] \<Rightarrow> None | _ # _ \<Rightarrow> Some (last xs))"

subsection \<open>\<open>int(s)\<close> and the format \<open>f'{n:03}'\<close>\<close>

definition is_digit :: "char \<Rightarrow> bool" where
  "is_digit c = (CHR ''0'' \<le> c \<and> c \<le> CHR ''9'')"

definition digit_val :: "char \<Rightarrow> nat" where
  "digit_val c = of_char c - 48"

text \<open>
  The characters that \<open>int\<close> skips at both ends of an ASCII string: the space and the
  five control characters from the tabulation to the carriage return.
\<close>

definition is_space :: "char \<Rightarrow> bool" where
  "is_space c = (of_char c \<in> {9, 10, 11, 12, 13, 32 :: nat})"

definition is_ascii :: "string \<Rightarrow> bool" where
  "is_ascii s = list_all (\<lambda>c. of_char c < (128 :: nat)) s"

definition py_strip :: "string \<Rightarrow> string" where
  "py_strip s = rev (dropWhile is_space (rev (dropWhile is_space s)))"

text \<open>
  The digits after the first one: further digits, each optionally preceded by a single
  underscore. \<open>None\<close> is the \<open>ValueError\<close> of \<open>int\<close>.
\<close>

fun int_digits :: "nat \<Rightarrow> string \<Rightarrow> nat option" where
  "int_digits acc [] = Some acc"
| "int_digits acc (c # cs) =
     (if is_digit c then int_digits (10 * acc + digit_val c) cs
      else if c = CHR ''_'' then
        (case cs of
           [] \<Rightarrow> None
         | d # ds \<Rightarrow> if is_digit d then int_digits (10 * acc + digit_val d) ds else None)
      else None)"

definition unsigned_int :: "string \<Rightarrow> nat option" where
  "unsigned_int s =
     (case s of
        [] \<Rightarrow> None
      | d # ds \<Rightarrow> if is_digit d then int_digits (digit_val d) ds else None)"

definition py_int :: "string \<Rightarrow> int option" where
  "py_int s =
     (case py_strip s of
        [] \<Rightarrow> None
      | c # cs \<Rightarrow>
          if c = CHR ''-'' then map_option (\<lambda>n. - int n) (unsigned_int cs)
          else if c = CHR ''+'' then map_option int (unsigned_int cs)
          else map_option int (unsigned_int (c # cs)))"

text \<open>The number that a string of decimal digits denotes, read from the left.\<close>

definition digits_value :: "nat \<Rightarrow> string \<Rightarrow> nat" where
  "digits_value acc s = foldl (\<lambda>a c. 10 * a + digit_val c) acc s"

fun dec_digits :: "nat \<Rightarrow> string" where
  "dec_digits n =
     (if n < 10 then [''0123456789'' ! n]
      else dec_digits (n div 10) @ [''0123456789'' ! (n mod 10)])"

declare dec_digits.simps [simp del]

definition zero_pad :: "nat \<Rightarrow> string \<Rightarrow> string" where
  "zero_pad w s = replicate (w - length s) CHR ''0'' @ s"

text \<open>
  \<open>f'{n:03}'\<close>: at least three characters, the sign of a negative number first and the
  zeros after it.
\<close>

definition fmt03 :: "int \<Rightarrow> string" where
  "fmt03 n =
     (if n < 0 then CHR ''-'' # zero_pad 2 (dec_digits (nat (- n)))
      else zero_pad 3 (dec_digits (nat n)))"

section \<open>\<open>Setup.set_release\<close>\<close>

text \<open>
  The two \<open>glob.glob\<close> calls read one directory each. The definitions take the names of
  the entries of \<open>final_directory/<mission>_spice\<close> and of \<open>working_directory\<close> as the
  two listings, and return the paths \<open>glob\<close> returns: the directory of the pattern, a
  slash and the name. This is what \<open>glob\<close> does when the directory and the mission
  acronym hold none of the characters that \<open>glob\<close> reads as a pattern
  (\<open>glob.has_magic\<close>) and the acronym holds no slash; the facts about the final area
  assume it.
\<close>

definition has_magic :: "string \<Rightarrow> bool" where
  "has_magic s = list_ex (\<lambda>c. c = CHR ''*'' \<or> c = CHR ''?'' \<or> c = CHR ''['') s"

definition literal_for_glob :: "string \<Rightarrow> string \<Rightarrow> bool" where
  "literal_for_glob directory mission_accronym =
     (\<not> has_magic directory \<and> \<not> has_magic mission_accronym \<and>
      CHR ''/'' \<notin> set mission_accronym)"

definition is_bundle_label :: "string \<Rightarrow> string \<Rightarrow> bool" where
  "is_bundle_label mission_accronym f = prefix (''bundle_'' @ mission_accronym @ ''_spice_v'') f"

definition is_kernel_list :: "string \<Rightarrow> string \<Rightarrow> bool" where
  "is_kernel_list mission_accronym f =
     (prefix (mission_accronym @ ''_release_'') f \<and> suffix ''.kernel_list'' f \<and>
      length (mission_accronym @ ''_release_'') + length ''.kernel_list'' \<le> length f)"

definition glob_bundle_labels :: "string \<Rightarrow> string \<Rightarrow> string list \<Rightarrow> string list" where
  "glob_bundle_labels final_directory mission_accronym final_listing =
     map (\<lambda>f. final_directory @ ''/'' @ mission_accronym @ ''_spice'' @ ''/'' @ f)
       (filter (is_bundle_label mission_accronym) final_listing)"

definition glob_kernel_lists :: "string \<Rightarrow> string \<Rightarrow> string list \<Rightarrow> string list" where
  "glob_kernel_lists working_directory mission_accronym working_listing =
     map (\<lambda>f. working_directory @ ''/'' @ f)
       (filter (is_kernel_list mission_accronym) working_listing)"

text \<open>
  The body shared by the two \<open>try\<close> blocks: sort the paths, take the last one, cut the
  number out of it, and format it and its successor. \<open>None\<close> is any exception raised on
  the way.
\<close>

definition release_number :: "string \<Rightarrow> string \<Rightarrow> int option" where
  "release_number sep path =
     Option.bind (py_split sep path) (\<lambda>pieces.
     Option.bind (py_last pieces) (\<lambda>tail.
     Option.bind (py_split ''.'' tail) (\<lambda>parts.
     Option.bind (py_first parts) py_int)))"

definition next_release :: "string \<Rightarrow> string list \<Rightarrow> (string \<times> string) option" where
  "next_release sep releases =
     Option.bind (py_last (sort releases)) (\<lambda>path.
     Option.bind (release_number sep path) (\<lambda>n.
       let current_release = fmt03 n in
       Option.bind (py_int current_release) (\<lambda>m.
         Some (fmt03 (m + 1), current_release))))"

record release_state =
  release :: string
  current_release :: string
  increment :: bool

definition set_release ::
  "string \<Rightarrow> string \<Rightarrow> string \<Rightarrow> string list \<Rightarrow> string list \<Rightarrow> release_state" where
  "set_release final_directory working_directory mission_accronym final_listing working_listing =
     (case next_release ''_spice_v''
             (glob_bundle_labels final_directory mission_accronym final_listing) of
        Some (rel, cur) \<Rightarrow> \<lparr>release = rel, current_release = cur, increment = True\<rparr>
      | None \<Rightarrow>
          (case next_release ''_release_''
                  (glob_kernel_lists working_directory mission_accronym working_listing) of
             Some (rel, cur) \<Rightarrow> \<lparr>release = rel, current_release = cur, increment = True\<rparr>
           | None \<Rightarrow> \<lparr>release = ''001'', current_release = '''', increment = False\<rparr>))"

text \<open>
  The name of the bundle label of a release, as the archive writes it:
  \<open>bundle_<mission>_spice_v<NNN>.xml\<close>.
\<close>

definition bundle_label_name :: "string \<Rightarrow> string \<Rightarrow> string" where
  "bundle_label_name mission_accronym nnn =
     ''bundle_'' @ mission_accronym @ ''_spice_v'' @ nnn @ ''.xml''"

section \<open>The attributes of \<open>Setup\<close> read by the checks\<close>

text \<open>
  \<open>Setup.__init__\<close> copies the configuration into attributes of the object. An
  attribute that the configuration does not provide does not exist (\<open>hasattr\<close> is
  false): it is \<open>None\<close> here. The value of an attribute that exists is a string, the
  empty string standing for every value Python takes as false.
\<close>

record setup_attributes =
  date_format :: string
  mission_start :: "string option"
  mission_finish :: "string option"
  increment_start :: "string option"
  increment_finish :: "string option"

definition and_then :: "error + 'a \<Rightarrow> ('a \<Rightarrow> error + 'b) \<Rightarrow> error + 'b" where
  "and_then r f = (case r of Inl e \<Rightarrow> Inl e | Inr x \<Rightarrow> f x)"

section \<open>\<open>Setup.__init__\<close>: the end of line\<close>

definition init_end_of_line :: "string \<Rightarrow> error + string \<times> nat" where
  "init_end_of_line end_of_line =
     (if end_of_line = ''CRLF'' then Inr ([CHR 0x0D, CHR 0x0A], 2)
      else if end_of_line = ''LF'' then Inr ([CHR 0x0A], 1)
      else error_message ''End of Line provided via configuration is not CRLF nor LF'')"

section \<open>\<open>Setup.check_configuration\<close>\<close>

subsection \<open>Increment start and finish times\<close>

text \<open>
  The two date patterns are sequences of single-character items, and \<open>pattern.match\<close>
  matches at the start of the string only, whatever follows.
\<close>

datatype re_item = Digit | AnyChar | Lit char

fun re_item_matches :: "re_item \<Rightarrow> char \<Rightarrow> bool" where
  "re_item_matches Digit c = is_digit c"
| "re_item_matches AnyChar c = (c \<noteq> CHR 0x0A)"
| "re_item_matches (Lit a) c = (a = c)"

fun pattern_match :: "re_item list \<Rightarrow> string \<Rightarrow> bool" where
  "pattern_match [] s = True"
| "pattern_match (i # items) [] = False"
| "pattern_match (i # items) (c # cs) = (re_item_matches i c \<and> pattern_match items cs)"

definition date_items :: "re_item list" where
  "date_items =
     [Digit, Digit, Digit, Digit, Lit CHR ''-'', Digit, Digit, Lit CHR ''-'', Digit, Digit,
      Lit CHR ''T'', Digit, Digit, Lit CHR '':'', Digit, Digit, Lit CHR '':'', Digit, Digit]"

definition infomod2_pattern :: "re_item list" where
  "infomod2_pattern = date_items @ [AnyChar, Digit, Digit, Digit, Lit CHR ''Z'']"

definition makelbl_pattern :: "re_item list" where
  "makelbl_pattern = date_items @ [Lit CHR ''Z'']"

text \<open>\<open>hasattr(self, a) and self.a\<close>, followed by the test of the format.\<close>

definition check_date_format :: "re_item list \<Rightarrow> string option \<Rightarrow> string \<Rightarrow> error + unit" where
  "check_date_format pattern attr msg =
     (case attr of
        None \<Rightarrow> Inr ()
      | Some v \<Rightarrow> if v \<noteq> [] \<and> \<not> pattern_match pattern v then error_message msg else Inr ())"

definition check_increment_pair :: "setup_attributes \<Rightarrow> error + unit" where
  "check_increment_pair s =
     (case (increment_start s, increment_finish s) of
        (Some start, Some finish) \<Rightarrow>
          if (start = [] \<and> finish \<noteq> []) \<or> (start \<noteq> [] \<and> finish = [])
          then error_message
            (''If provided via configuration, increment_start and '' @
             ''increment_finish parameters need to be provided '' @
             ''together.'')
          else Inr ()
      | _ \<Rightarrow> Inr ())"

definition check_configuration_dates :: "setup_attributes \<Rightarrow> error + unit" where
  "check_configuration_dates s =
     and_then
       (if date_format s = ''infomod2'' then Inr (infomod2_pattern, ''YYYY-MM-DDThh:mm:ss.sssZ'')
        else if date_format s = ''makelbl'' then Inr (makelbl_pattern, ''YYYY-MM-DDThh:mm:ssZ'')
        else error_message ''date_format parameter is not infomod2 or makelbl.'')
       (\<lambda>(pattern, format).
     and_then (check_date_format pattern (mission_start s)
       (''mission_start parameter does not match the required format: '' @ format @ ''.''))
       (\<lambda>_.
     and_then (check_date_format pattern (mission_finish s)
       (''mission_finish does not match the required format: '' @ format @ ''.''))
       (\<lambda>_.
     and_then (check_date_format pattern (increment_start s)
       (''increment_start parameter does not match the required format: '' @ format @ ''.''))
       (\<lambda>_.
     and_then (check_date_format pattern (increment_finish s)
       (''increment_finish does not match the required format: '' @ format @ ''.''))
       (\<lambda>_. check_increment_pair s)))))"

subsection \<open>Meta-kernel names\<close>

text \<open>
  A meta-kernel of the configuration: its name template (\<open>@name\<close>) and the \<open>#text\<close> of
  its declared patterns, in the order of the configuration.
\<close>

record metak =
  mk_name :: string
  mk_patterns :: "string list"

text \<open>
  The loop over the declared patterns keeps a working copy of the name template,
  \<open>metal_name_check\<close>: each pattern is looked up in the working copy, then every
  \<open>$\<close>-prefixed occurrence of it is removed from the working copy.
\<close>

fun check_patterns :: "string \<Rightarrow> string list \<Rightarrow> error + string" where
  "check_patterns metal_name_check [] = Inr metal_name_check"
| "check_patterns metal_name_check (name_pattern # patterns) =
     (if \<not> py_in name_pattern metal_name_check
      then error_message (''The meta-kernel pattern '' @ name_pattern @ '' is not provided'')
      else check_patterns (py_replace (CHR ''$'' # name_pattern) [] metal_name_check) patterns)"

definition check_metak :: "metak \<Rightarrow> error + unit" where
  "check_metak mk =
     and_then (check_patterns (mk_name mk) (mk_patterns mk)) (\<lambda>metal_name_check.
       if CHR ''$'' \<in> set metal_name_check
       then error_message ''The meta-kernel patterns for are not defined via configuration''
       else Inr ())"

datatype level = INFO | WARNING | ERROR

datatype log_msg = Text string | Not_found string | Loaded string "string list"

type_synonym log = "(level \<times> log_msg) list"

fun check_metaks :: "metak list \<Rightarrow> error + unit" where
  "check_metaks [] = Inr ()"
| "check_metaks (mk # mks) = and_then (check_metak mk) (\<lambda>_. check_metaks mks)"

text \<open>
  The \<open>else\<close> of the \<open>for\<close> loop runs whenever the loop ends without \<open>break\<close>, so the
  warning is logged after every successful check.
\<close>

definition check_configuration_mk :: "metak list option \<Rightarrow> error + log" where
  "check_configuration_mk mk =
     (case mk of
        None \<Rightarrow> Inr []
      | Some mks \<Rightarrow>
          and_then (check_metaks mks) (\<lambda>_.
            Inr [(WARNING, Text ''-- There is no meta-kernel configuration to check.'')]))"

text \<open>
  The whole method: the dates, then the checks of the directories and of the label
  templates (lines 204 to 300, which read the file system; their outcome is the
  parameter \<open>directories_and_templates\<close>), then the meta-kernels.
\<close>

definition check_configuration ::
  "setup_attributes \<Rightarrow> error + unit \<Rightarrow> metak list option \<Rightarrow> error + log" where
  "check_configuration s directories_and_templates mk =
     and_then (check_configuration_dates s) (\<lambda>_.
     and_then directories_and_templates (\<lambda>_.
     check_configuration_mk mk))"

text \<open>
  The working copy after the patterns \<open>ps\<close> have been removed from the template.
\<close>

definition working_copy :: "string \<Rightarrow> string list \<Rightarrow> string" where
  "working_copy name ps = foldl (\<lambda>w p. py_replace (CHR ''$'' # p) [] w) name ps"

text \<open>
  Some declared pattern is not found in the working copy at its turn, that is, in the
  template from which the patterns declared before it have been removed.
\<close>

definition absent_at_turn :: "string \<Rightarrow> string list \<Rightarrow> bool" where
  "absent_at_turn name ps =
     (\<exists>pre p post. ps = pre @ p # post \<and> \<not> py_in p (working_copy name pre))"

section \<open>\<open>Setup.check_times\<close>\<close>

text \<open>
  \<open>spiceypy.utc2et\<close> is a parameter: it returns a time, of any totally ordered type,
  or raises, \<open>Inl\<close> carrying the text of the exception. Reading an attribute that does
  not exist raises as well. Every exception of the \<open>try\<close> block is reported with
  \<open>error_message\<close>.
\<close>

definition get_attribute :: "string \<Rightarrow> string option \<Rightarrow> string + string" where
  "get_attribute name attr =
     (case attr of None \<Rightarrow> Inl (''AttributeError: '' @ name) | Some v \<Rightarrow> Inr v)"

definition utc2et_attribute ::
  "(string \<Rightarrow> string + 'a) \<Rightarrow> string \<Rightarrow> string option \<Rightarrow> error + 'a" where
  "utc2et_attribute utc2et name attr =
     (case get_attribute name attr of
        Inl e \<Rightarrow> error_message e
      | Inr v \<Rightarrow> (case utc2et v of Inl e \<Rightarrow> error_message e | Inr t \<Rightarrow> Inr t))"

definition check_times :: "(string \<Rightarrow> string + 'a::linorder) \<Rightarrow> setup_attributes \<Rightarrow> error + unit" where
  "check_times utc2et s =
     and_then (utc2et_attribute utc2et ''mission_start'' (mission_start s)) (\<lambda>et_msn_strt.
     and_then (utc2et_attribute utc2et ''increment_start'' (increment_start s)) (\<lambda>et_inc_strt.
     and_then (utc2et_attribute utc2et ''increment_finish'' (increment_finish s)) (\<lambda>et_inc_stop.
     and_then (utc2et_attribute utc2et ''mission_finish'' (mission_finish s)) (\<lambda>et_mis_stop.
       if \<not> (et_msn_strt < et_inc_strt) \<or> \<not> (et_inc_strt \<le> et_inc_stop) \<or>
          \<not> (et_inc_stop \<le> et_mis_stop) \<or> \<not> (et_msn_strt < et_mis_stop)
       then error_message ''-- Provided dates are note correct. Check the archive coverage''
       else Inr ()))))"

section \<open>\<open>Setup.load_kernels\<close>\<close>

text \<open>
  What the method reads outside the program: whether a path exists (\<open>os.path.exists\<close>),
  the names in a directory (\<open>os.listdir\<close>, \<open>None\<close> when the directory is missing),
  whether a name contains a match of a regular expression (\<open>re.search\<close>, \<open>None\<close> when
  the expression does not compile), and whether SPICE loads a file
  (\<open>spiceypy.furnsh\<close>).
\<close>

record kernel_env =
  path_exists :: "string \<Rightarrow> bool"
  listdir :: "string \<Rightarrow> string list option"
  re_search :: "string \<Rightarrow> string \<Rightarrow> bool option"
  furnsh_ok :: "string \<Rightarrow> bool"

text \<open>An entry of \<open>kernels_to_load\<close> is one pattern or a list of patterns.\<close>

datatype config_value = Single string | Many "string list"

definition as_list :: "config_value \<Rightarrow> string list" where
  "as_list v = (case v of Single x \<Rightarrow> [x] | Many xs \<Rightarrow> xs)"

text \<open>
  The first loop sorts the patterns by kernel type. Its innermost loop variables stay
  bound after the loop; \<open>lsk_var\<close> is the variable \<open>lsk\<close>, which the method reads
  later, \<open>None\<close> while no loop has bound it.
\<close>

record patterns_state =
  fk_patterns :: "string list"
  sclk_patterns :: "string list"
  pck_patterns :: "string list"
  lsk_patterns :: "string list"
  lsk_var :: "string option"

fun collect_patterns :: "(string \<times> config_value) list \<Rightarrow> patterns_state \<Rightarrow> patterns_state" where
  "collect_patterns [] st = st"
| "collect_patterns ((ktype, v) # rest) st =
     collect_patterns rest
       (if py_in ''fk'' ktype then st\<lparr>fk_patterns := fk_patterns st @ as_list v\<rparr>
        else if py_in ''sclk'' ktype then st\<lparr>sclk_patterns := sclk_patterns st @ as_list v\<rparr>
        else if py_in ''pck'' ktype then st\<lparr>pck_patterns := pck_patterns st @ as_list v\<rparr>
        else if py_in ''lsk'' ktype
          then st\<lparr>lsk_patterns := lsk_patterns st @ as_list v,
                  lsk_var := (if as_list v = [] then lsk_var st else Some (last (as_list v)))\<rparr>
        else st)"

text \<open>The list comprehension \<open>[f for f in os.listdir(...) if re.search(pattern, f)]\<close>.\<close>

fun filter_search :: "kernel_env \<Rightarrow> string \<Rightarrow> string list \<Rightarrow> error + string list" where
  "filter_search env pattern [] = Inr []"
| "filter_search env pattern (f # fs) =
     (case re_search env pattern f of
        None \<Rightarrow> Inl (RegexError pattern)
      | Some found \<Rightarrow>
          and_then (filter_search env pattern fs) (\<lambda>rest.
            Inr (if found then f # rest else rest)))"

definition furnsh :: "kernel_env \<Rightarrow> string \<Rightarrow> string list \<Rightarrow> error + string list" where
  "furnsh env path furnished =
     (if furnsh_ok env path then Inr (furnished @ [path]) else Inl (SpiceError path))"

text \<open>
  The body of the loop over the patterns of one kernel type. The method writes it four
  times, for \<open>lsk\<close>, \<open>pck\<close>, \<open>fk\<close> and \<open>sclk\<close>, with the name of the subdirectory as
  the only difference that can be observed. The state is the list of selected kernels and
  the list of the files given to SPICE.
\<close>

definition resolve_pattern ::
  "kernel_env \<Rightarrow> string \<Rightarrow> string \<Rightarrow> string \<Rightarrow> string list \<times> string list \<Rightarrow>
   error + string list \<times> string list" where
  "resolve_pattern env kernels_directory subdir pattern st =
     (case st of (selected, furnished) \<Rightarrow>
        if path_exists env pattern then
          and_then (furnsh env pattern furnished) (\<lambda>furnished'.
            Inr (selected @ [pattern], furnished'))
        else
          (case listdir env (kernels_directory @ ''/'' @ subdir @ ''/'') of
             None \<Rightarrow> Inl (FileNotFoundError (kernels_directory @ ''/'' @ subdir @ ''/''))
           | Some names \<Rightarrow>
               and_then (filter_search env pattern names) (\<lambda>candidates.
                 if candidates \<noteq> [] then
                   (let candidates' =
                          (if length candidates > 1 then sort candidates else candidates)
                    in and_then
                         (furnsh env (kernels_directory @ ''/'' @ subdir @ ''/'' @ last candidates')
                            furnished)
                         (\<lambda>furnished'. Inr (selected @ [last candidates'], furnished')))
                 else Inr (selected, furnished))))"

fun resolve_patterns ::
  "kernel_env \<Rightarrow> string \<Rightarrow> string \<Rightarrow> string list \<Rightarrow> string list \<times> string list \<Rightarrow>
   error + string list \<times> string list" where
  "resolve_patterns env kernels_directory subdir [] st = Inr st"
| "resolve_patterns env kernels_directory subdir (pattern # patterns) st =
     and_then (resolve_pattern env kernels_directory subdir pattern st)
       (resolve_patterns env kernels_directory subdir patterns)"

text \<open>
  The result of the method: the attributes \<open>fks\<close>, \<open>sclks\<close> and \<open>lsk\<close> that it sets,
  the files given to SPICE and the messages logged about the four kernel types (the header of the step is left out).
\<close>

record kernels_state =
  self_fks :: "string list"
  self_sclks :: "string list"
  self_lsk :: string
  spice_pool :: "string list"
  messages :: log

definition report :: "level \<Rightarrow> string \<Rightarrow> string list \<Rightarrow> level \<times> log_msg" where
  "report lvl kind found = (if found = [] then (lvl, Not_found kind) else (INFO, Loaded kind found))"

definition load_kernels ::
  "kernel_env \<Rightarrow> string \<Rightarrow> (string \<times> config_value) list \<Rightarrow> error + kernels_state" where
  "load_kernels env kernels_directory kernels_to_load =
     (let ps = collect_patterns kernels_to_load
                 \<lparr>fk_patterns = [], sclk_patterns = [], pck_patterns = [],
                  lsk_patterns = [], lsk_var = None\<rparr>
      in
      and_then (resolve_patterns env kernels_directory ''lsk'' (lsk_patterns ps) ([], []))
        (\<lambda>(lsks, furnished1).
      and_then
        (case lsk_var ps of
           None \<Rightarrow> Inl (NameError ''lsk'')
         | Some lsk \<Rightarrow>
             Inr (lsk, if lsk = [] then (ERROR, Not_found ''LSK'') else (INFO, Loaded ''LSK'' lsks)))
        (\<lambda>(lsk, lsk_message).
      and_then
        (if length lsks > 1 then error_message ''Only one LSK should be obtained.'' else Inr ())
        (\<lambda>_.
      and_then (resolve_patterns env kernels_directory ''pck'' (pck_patterns ps) ([], furnished1))
        (\<lambda>(pcks, furnished2).
      and_then (resolve_patterns env kernels_directory ''fk'' (fk_patterns ps) ([], furnished2))
        (\<lambda>(fks, furnished3).
      and_then (resolve_patterns env kernels_directory ''sclk'' (sclk_patterns ps) ([], furnished3))
        (\<lambda>(sclks, furnished4).
          Inr \<lparr>self_fks = fks, self_sclks = sclks, self_lsk = lsk, spice_pool = furnished4,
               messages = [lsk_message, report WARNING ''PCK'' pcks,
                           report WARNING ''FK'' fks, report ERROR ''SCLK'' sclks]\<rparr>)))))))"

text \<open>The candidates of a search: the names of the listing that contain a match.\<close>

definition matching_names :: "kernel_env \<Rightarrow> string \<Rightarrow> string list \<Rightarrow> string list" where
  "matching_names env pattern names = filter (\<lambda>f. re_search env pattern f = Some True) names"

text \<open>
  The patterns that the first loop gathers for one kernel type: those of the entries of
  \<open>kernels_to_load\<close> whose key selects the type, in the order of the configuration. A
  key is tested for \<open>fk\<close> first, then \<open>sclk\<close>, \<open>pck\<close> and \<open>lsk\<close>.
\<close>

definition patterns_of :: "(string \<Rightarrow> bool) \<Rightarrow> (string \<times> config_value) list \<Rightarrow> string list" where
  "patterns_of wanted kernels_to_load =
     concat (map (\<lambda>(ktype, v). as_list v) (filter (\<lambda>(ktype, v). wanted ktype) kernels_to_load))"

definition is_fk :: "string \<Rightarrow> bool" where
  "is_fk ktype = py_in ''fk'' ktype"

definition is_sclk :: "string \<Rightarrow> bool" where
  "is_sclk ktype = (\<not> py_in ''fk'' ktype \<and> py_in ''sclk'' ktype)"

definition is_pck :: "string \<Rightarrow> bool" where
  "is_pck ktype = (\<not> py_in ''fk'' ktype \<and> \<not> py_in ''sclk'' ktype \<and> py_in ''pck'' ktype)"

definition is_lsk :: "string \<Rightarrow> bool" where
  "is_lsk ktype =
     (\<not> py_in ''fk'' ktype \<and> \<not> py_in ''sclk'' ktype \<and> \<not> py_in ''pck'' ktype \<and>
      py_in ''lsk'' ktype)"

text \<open>
  The selection as the specification words it. The candidates of a pattern are the names
  in the subdirectory of the kernel type that contain a match. A pattern that is the path
  of an existing file selects itself; any other pattern selects the candidate that is
  last in the order of strings, and nothing when there is no candidate. The file given to
  SPICE is the existing path, or the selected name in the subdirectory.
\<close>

definition candidates :: "kernel_env \<Rightarrow> string \<Rightarrow> string \<Rightarrow> string \<Rightarrow> string list" where
  "candidates env kernels_directory subdir pattern =
     (case listdir env (kernels_directory @ ''/'' @ subdir @ ''/'') of
        None \<Rightarrow> []
      | Some names \<Rightarrow> matching_names env pattern names)"

definition selected_kernel :: "kernel_env \<Rightarrow> string \<Rightarrow> string \<Rightarrow> string \<Rightarrow> string option" where
  "selected_kernel env kernels_directory subdir pattern =
     (if path_exists env pattern then Some pattern
      else if candidates env kernels_directory subdir pattern = [] then None
      else Some (Max (set (candidates env kernels_directory subdir pattern))))"

definition kernel_file :: "kernel_env \<Rightarrow> string \<Rightarrow> string \<Rightarrow> string \<Rightarrow> string option" where
  "kernel_file env kernels_directory subdir pattern =
     (if path_exists env pattern then Some pattern
      else map_option (\<lambda>k. kernels_directory @ ''/'' @ subdir @ ''/'' @ k)
             (selected_kernel env kernels_directory subdir pattern))"

definition selected_kernels :: "kernel_env \<Rightarrow> string \<Rightarrow> string \<Rightarrow> string list \<Rightarrow> string list" where
  "selected_kernels env kernels_directory subdir patterns =
     List.map_filter (selected_kernel env kernels_directory subdir) patterns"

definition kernel_files :: "kernel_env \<Rightarrow> string \<Rightarrow> string \<Rightarrow> string list \<Rightarrow> string list" where
  "kernel_files env kernels_directory subdir patterns =
     List.map_filter (kernel_file env kernels_directory subdir) patterns"

text \<open>
  Nothing is raised while a pattern is resolved: an existing path is loaded by SPICE; for any
  other pattern the subdirectory exists, the pattern is a regular expression that
  compiles, and SPICE loads the selected file, if there is one.
\<close>

definition search_succeeds :: "kernel_env \<Rightarrow> string \<Rightarrow> string \<Rightarrow> string \<Rightarrow> bool" where
  "search_succeeds env kernels_directory subdir pattern =
     (if path_exists env pattern then furnsh_ok env pattern
      else
        (case listdir env (kernels_directory @ ''/'' @ subdir @ ''/'') of
           None \<Rightarrow> False
         | Some names \<Rightarrow>
             list_all (\<lambda>f. re_search env pattern f \<noteq> None) names \<and>
             (case kernel_file env kernels_directory subdir pattern of
                None \<Rightarrow> True
              | Some path \<Rightarrow> furnsh_ok env path)))"

section \<open>PatternMatcher\<close>

text \<open>
  Modelled from the spec: \<open>match_patterns\<close> of the package's \<open>utils\<close> is not among the
  sources, only its unit test is. The definitions follow section 4.1 of the
  specification: the template is walked from left to right, a literal character is
  compared with the character of the file name at the same position, and a placeholder
  takes as many characters of the file name as its field declares. The specification does
  not say where the name of a placeholder ends; here a \<open>$\<close> starts the placeholder of the
  first declared field whose name follows it. The result is an association list in the
  order of the first occurrence of each placeholder in the template.
\<close>

record field =
  field_name :: string
  field_length :: nat

datatype match_error = UndefinedFieldError | LengthMismatchError | LiteralMismatchError

datatype segment = Literal char | Placeholder string nat

function parse_template :: "field list \<Rightarrow> string \<Rightarrow> segment list option" where
  "parse_template declared [] = Some []"
| "parse_template declared (c # cs) =
     (if c = CHR ''$'' then
        (case find (\<lambda>f. prefix (field_name f) cs) declared of
           None \<Rightarrow> None
         | Some f \<Rightarrow>
             map_option ((#) (Placeholder (field_name f) (field_length f)))
               (parse_template declared (drop (length (field_name f)) cs)))
      else map_option ((#) (Literal c)) (parse_template declared cs))"
  by pat_completeness auto
termination
  by (relation "measure (\<lambda>(declared, s). length s)") auto

fun segment_length :: "segment \<Rightarrow> nat" where
  "segment_length (Literal c) = 1"
| "segment_length (Placeholder n l) = l"

definition template_length :: "segment list \<Rightarrow> nat" where
  "template_length segs = sum_list (map segment_length segs)"

fun walk ::
  "segment list \<Rightarrow> string \<Rightarrow> (string \<times> string) list \<Rightarrow> match_error + (string \<times> string) list" where
  "walk [] name values = Inr values"
| "walk (Literal c # segs) [] values = Inl LengthMismatchError"
| "walk (Literal c # segs) (d # name) values =
     (if c = d then walk segs name values else Inl LiteralMismatchError)"
| "walk (Placeholder n l # segs) name values =
     walk segs (drop l name) (AList.update n (take l name) values)"

definition match_patterns ::
  "string \<Rightarrow> string \<Rightarrow> field list \<Rightarrow> match_error + (string \<times> string) list" where
  "match_patterns name name_w_pattern patterns =
     (case parse_template patterns name_w_pattern of
        None \<Rightarrow> Inl UndefinedFieldError
      | Some segs \<Rightarrow>
          if template_length segs \<noteq> length name then Inl LengthMismatchError
          else walk segs name [])"

section \<open>Facts about the string operations\<close>

lemma append_le_append: "(p @ x \<le> p @ y) = (x \<le> (y :: string))"
  by (induction p) simp_all

lemma sorted_le_last:
  fixes ys :: "'a::linorder list"
  shows "sorted ys \<Longrightarrow> z \<in> set ys \<Longrightarrow> z \<le> last ys"
  by (induction ys) auto

lemma split_from_nonempty: "split_from sep acc s \<noteq> []"
  by (induction s arbitrary: acc) simp_all

lemma nth_append_left: "i < length xs \<Longrightarrow> (xs @ zs) ! i = xs ! i"
  by (simp add: nth_append)

lemma py_last_eq: "py_last xs = (if xs = [] then None else Some (last xs))"
  by (cases xs) (simp_all add: py_last_def)

lemma last_sort_greatest:
  fixes xs :: "'a::linorder list"
  assumes "z \<in> set xs" and "\<forall>x \<in> set xs. x \<le> z"
  shows "py_last (sort xs) = Some z"
proof -
  have "set (sort xs) \<noteq> {}" using assms(1) by auto
  then have ne: "sort xs \<noteq> []" by (simp del: set_sort)
  have "last (sort xs) \<in> set (sort xs)" using ne by (rule last_in_set)
  then have "last (sort xs) \<le> z" using assms(2) by simp
  moreover have "z \<le> last (sort xs)"
    using assms(1) by (intro sorted_le_last) simp_all
  ultimately have "last (sort xs) = z" by simp
  then show ?thesis using ne by (simp add: py_last_eq)
qed

lemma last_sort_Max:
  fixes xs :: "'a::linorder list"
  assumes "xs \<noteq> []"
  shows "last (sort xs) = Max (set xs)"
proof -
  have "py_last (sort xs) = Some (Max (set xs))"
    using assms by (intro last_sort_greatest) simp_all
  then show ?thesis by (simp add: py_last_eq split: if_splits)
qed

lemma sort_short:
  fixes xs :: "'a::linorder list"
  shows "\<not> 1 < length xs \<Longrightarrow> sort xs = xs"
  by (cases xs) simp_all

lemma split_from_absent:
  assumes "sep \<noteq> []" and "hd sep \<notin> set b"
  shows "split_from sep acc b = [acc @ b]"
  using assms(2)
proof (induction b arbitrary: acc)
  case Nil
  then show ?case by simp
next
  case (Cons c b)
  have "\<not> prefix sep (c # b)"
  proof
    assume "prefix sep (c # b)"
    then obtain zs where "c # b = sep @ zs" by (auto simp: prefix_def)
    with assms(1) have "hd sep = c" by (cases sep) auto
    with Cons.prems show False by simp
  qed
  with Cons show ?case by simp
qed

lemma split_from_last:
  assumes sep: "sep \<noteq> []"
    and early: "\<And>p. p \<noteq> [] \<Longrightarrow> length p < length sep \<Longrightarrow> \<not> prefix sep (p @ sep @ b)"
    and absent: "hd sep \<notin> set b"
  shows "last (split_from sep acc (p @ sep @ b)) = b"
proof (induction "length p" arbitrary: p acc rule: less_induct)
  case less
  show ?case
  proof (cases p)
    case Nil
    have "split_from sep acc (sep @ b) = acc # split_from sep [] b"
      using sep by (cases sep) simp_all
    then show ?thesis using Nil split_from_absent[OF sep absent, of "[]"] by simp
  next
    case (Cons c p')
    show ?thesis
    proof (cases "prefix sep (p @ sep @ b)")
      case True
      then have len: "length sep \<le> length p" using early[of p] Cons by force
      then have d: "drop (length sep) (p @ sep @ b) = drop (length sep) p @ sep @ b" by simp
      have "length (drop (length sep) p) < length p" using Cons sep by simp
      then have ih: "last (split_from sep [] (drop (length sep) p @ sep @ b)) = b"
        by (rule less.hyps)
      have "split_from sep acc (p @ sep @ b) =
              acc # split_from sep [] (drop (length sep) (p @ sep @ b))"
        using True sep unfolding Cons by simp
      moreover have "split_from sep [] (drop (length sep) p @ sep @ b) \<noteq> []"
        by (rule split_from_nonempty)
      ultimately show ?thesis using ih d by simp
    next
      case False
      have "length p' < length p" using Cons by simp
      then have ih: "last (split_from sep (acc @ [c]) (p' @ sep @ b)) = b"
        by (rule less.hyps)
      have "split_from sep acc (p @ sep @ b) = split_from sep (acc @ [c]) (p' @ sep @ b)"
        using False unfolding Cons by simp
      then show ?thesis using ih by simp
    qed
  qed
qed

lemma spice_v_nth: "i < 8 \<Longrightarrow> ''_spice_v'' ! i = CHR ''_'' \<Longrightarrow> i = 0 \<or> i = 6"
  by (auto simp: nth_Cons' split: if_splits)

lemma spice_v_no_early_match:
  assumes "p \<noteq> []" and "length p < length ''_spice_v''"
  shows "\<not> prefix ''_spice_v'' (p @ ''_spice_v'' @ b)"
proof
  let ?s = "''_spice_v''"
  assume "prefix ?s (p @ ?s @ b)"
  then obtain zs where zs: "p @ ?s @ b = ?s @ zs" by (auto simp: prefix_def)
  have k: "0 < length p" "length p < 8" using assms by simp_all
  have nth: "(p @ ?s @ b) ! i = ?s ! i" if "i < 8" for i
    using that nth_append_left[of i ?s zs] unfolding zs by simp
  have "(p @ ?s @ b) ! length p = CHR ''_''" by (simp add: nth_append)
  then have "?s ! length p = CHR ''_''" using nth[OF k(2)] by simp
  then have six: "length p = 6" using spice_v_nth[OF k(2)] k(1) by simp
  have "(p @ ?s @ b) ! 7 = CHR ''s''" using six by (simp add: nth_append)
  moreover have "(p @ ?s @ b) ! 7 = CHR ''v''" using nth[of 7] by simp
  ultimately show False by simp
qed

lemma release_number_bundle_label:
  assumes "CHR ''_'' \<notin> set b"
  shows "release_number ''_spice_v'' (p @ ''_spice_v'' @ b) =
           Option.bind (py_first (split_from ''.'' [] b)) py_int"
proof -
  have "last (split_from ''_spice_v'' [] (p @ ''_spice_v'' @ b)) = b"
    by (rule split_from_last) (use assms spice_v_no_early_match in simp_all)
  moreover have "split_from ''_spice_v'' [] (p @ ''_spice_v'' @ b) \<noteq> []"
    by (rule split_from_nonempty)
  ultimately show ?thesis
    by (simp add: release_number_def py_split_def py_last_eq)
qed

lemma release_number_v00k:
  "k \<in> {''001'', ''002'', ''003'', ''004'', ''005'', ''006'', ''007''} \<Longrightarrow>
   release_number ''_spice_v'' (p @ ''_spice_v'' @ k @ ''.xml'') = py_int k"
  by (subst release_number_bundle_label) (auto simp: py_first_def)

subsection \<open>\<open>int\<close> reads back what the format \<open>03\<close> writes\<close>

lemma digit_char_is_digit: "d < 10 \<Longrightarrow> is_digit (''0123456789'' ! d)"
  by (auto simp: nth_Cons' is_digit_def less_eq_char_def)

lemma digit_char_val: "d < 10 \<Longrightarrow> digit_val (''0123456789'' ! d) = d"
  by (auto simp: nth_Cons' digit_val_def)

lemma dec_digits_digits: "c \<in> set (dec_digits n) \<Longrightarrow> is_digit c"
proof (induction n arbitrary: c rule: dec_digits.induct)
  case (1 n)
  show ?case
  proof (cases "n < 10")
    case True
    with "1.prems" show ?thesis by (simp add: dec_digits.simps[of n] digit_char_is_digit)
  next
    case False
    with "1.prems" "1.IH" show ?thesis
      by (auto simp: dec_digits.simps[of n] digit_char_is_digit)
  qed
qed

lemma dec_digits_nonempty: "dec_digits n \<noteq> []"
  by (subst dec_digits.simps) simp

lemma int_digits_value:
  "\<forall>c \<in> set s. is_digit c \<Longrightarrow> int_digits acc s = Some (digits_value acc s)"
  by (induction s arbitrary: acc) (simp_all add: digits_value_def)

lemma digits_value_dec: "digits_value 0 (dec_digits n) = n"
proof (induction n rule: dec_digits.induct)
  case (1 n)
  show ?case
  proof (cases "n < 10")
    case True
    then show ?thesis by (simp add: dec_digits.simps[of n] digits_value_def digit_char_val)
  next
    case False
    with "1.IH" show ?thesis
      by (simp add: dec_digits.simps[of n] digits_value_def digit_char_val)
  qed
qed

lemma zero_is_digit: "is_digit CHR ''0''"
  by (simp add: is_digit_def)

lemma digits_value_pad: "digits_value 0 (zero_pad w s) = digits_value 0 s"
proof -
  have "foldl (\<lambda>a c. 10 * a + digit_val c) 0 (replicate k CHR ''0'') = 0" for k
    by (induction k) (simp_all add: digit_val_def)
  then show ?thesis by (simp add: zero_pad_def digits_value_def)
qed

lemma zero_pad_digits: "\<forall>c \<in> set s. is_digit c \<Longrightarrow> \<forall>c \<in> set (zero_pad w s). is_digit c"
  by (auto simp: zero_pad_def zero_is_digit)

lemma unsigned_int_digits:
  assumes "s \<noteq> []" and "\<forall>c \<in> set s. is_digit c"
  shows "unsigned_int s = Some (digits_value 0 s)"
proof (cases s)
  case Nil
  with assms show ?thesis by simp
next
  case (Cons d ds)
  with assms have "int_digits (digit_val d) ds = Some (digits_value (digit_val d) ds)"
    by (intro int_digits_value) simp
  with Cons assms show ?thesis by (simp add: unsigned_int_def digits_value_def)
qed

lemma digit_not_space: "is_digit c \<Longrightarrow> \<not> is_space c"
  by (auto simp: is_digit_def is_space_def less_eq_char_def)

lemma py_strip_id:
  assumes "s \<noteq> []" and "\<not> is_space (hd s)" and "\<not> is_space (last s)"
  shows "py_strip s = s"
proof -
  have "dropWhile is_space s = s" using assms by (cases s) simp_all
  moreover have "dropWhile is_space (rev s) = rev s"
    using assms by (cases "rev s") (simp_all add: last_rev[symmetric] hd_rev del: last_rev)
  ultimately show ?thesis by (simp add: py_strip_def)
qed

lemma py_int_fmt03: "py_int (fmt03 n) = Some n"
proof (cases "n < 0")
  case False
  let ?s = "zero_pad 3 (dec_digits (nat n))"
  have digits: "\<forall>c \<in> set ?s. is_digit c"
    by (intro zero_pad_digits) (simp add: dec_digits_digits)
  have ne: "?s \<noteq> []" by (simp add: zero_pad_def dec_digits_nonempty)
  then have "hd ?s \<in> set ?s" "last ?s \<in> set ?s" by simp_all
  with digits have ends: "is_digit (hd ?s)" "is_digit (last ?s)" by blast+
  then have strip: "py_strip ?s = ?s" using ne by (intro py_strip_id) (simp_all add: digit_not_space)
  obtain c cs where s: "?s = c # cs" using ne by (cases ?s) auto
  with ends have "is_digit c" by simp
  then have c: "c \<noteq> CHR ''-''" "c \<noteq> CHR ''+''" by (auto simp: is_digit_def less_eq_char_def)
  have "unsigned_int ?s = Some (nat n)"
    using unsigned_int_digits[OF ne digits] by (simp add: digits_value_pad digits_value_dec)
  with False strip s c show ?thesis by (simp add: py_int_def fmt03_def)
next
  case True
  let ?s = "zero_pad 2 (dec_digits (nat (- n)))"
  have digits: "\<forall>c \<in> set ?s. is_digit c"
    by (intro zero_pad_digits) (simp add: dec_digits_digits)
  have ne: "?s \<noteq> []" by (simp add: zero_pad_def dec_digits_nonempty)
  then have "last ?s \<in> set ?s" by simp
  with digits have "is_digit (last ?s)" by blast
  then have "\<not> is_space (last (CHR ''-'' # ?s))" using ne by (simp add: digit_not_space)
  moreover have "\<not> is_space CHR ''-''" by (simp add: is_space_def)
  ultimately have strip: "py_strip (CHR ''-'' # ?s) = CHR ''-'' # ?s"
    by (intro py_strip_id) simp_all
  have "unsigned_int ?s = Some (nat (- n))"
    using unsigned_int_digits[OF ne digits] by (simp add: digits_value_pad digits_value_dec)
  with True strip show ?thesis by (simp add: py_int_def fmt03_def)
qed

section \<open>The release number\<close>

text \<open>
  Claim C1, as the code has it, for a final directory and a mission acronym that \<open>glob\<close>
  reads literally. The candidates are the paths that \<open>glob\<close> returns; they are sorted as
  strings and the last one alone is parsed: whenever the names of the final area are
  ASCII and at most 255 characters long, there is a candidate, and the number \<open>n\<close> is read from the candidate that is
  greatest in the order of strings, the release is the successor of \<open>n\<close> and the
  previous release is \<open>n\<close>, both written with at least three digits, and the run is an
  increment. The order of the candidates is the order of their file names, not of their
  numbers. In particular, whenever the bundle labels of the final area are exactly those
  of the releases 001 to 007, written with three digits
  (\<open>bundle_<mission>_spice_v<NNN>.xml\<close>), in any order and among any other files,
  \<open>set_release\<close> gives release 008, the previous release 007 and an increment.
\<close>

theorem set_release_final_area:
  "(literal_for_glob fd m \<and>
    (\<forall>f \<in> set final_listing. is_ascii f \<and> length f \<le> 255) \<and>
    glob_bundle_labels fd m final_listing \<noteq> [] \<and>
    release_number ''_spice_v'' (Max (set (glob_bundle_labels fd m final_listing))) = Some n \<longrightarrow>
      set_release fd wd m final_listing working_listing =
        \<lparr>release = fmt03 (n + 1), current_release = fmt03 n, increment = True\<rparr>) \<and>
   (literal_for_glob fd m \<and>
    set (filter (is_bundle_label m) final_listing) =
      bundle_label_name m ` {''001'', ''002'', ''003'', ''004'', ''005'', ''006'', ''007''} \<longrightarrow>
      set_release fd wd m final_listing working_listing =
        \<lparr>release = ''008'', current_release = ''007'', increment = True\<rparr>)"
proof (intro conjI impI)
  let ?paths = "glob_bundle_labels fd m final_listing"
  assume "literal_for_glob fd m \<and>
    (\<forall>f \<in> set final_listing. is_ascii f \<and> length f \<le> 255) \<and>
    ?paths \<noteq> [] \<and> release_number ''_spice_v'' (Max (set ?paths)) = Some n"
  then have a: "?paths \<noteq> []" "release_number ''_spice_v'' (Max (set ?paths)) = Some n"
    by simp_all
  then have "sort ?paths \<noteq> []" by (metis set_empty set_sort)
  moreover have "last (sort ?paths) = Max (set ?paths)"
    using a by (intro last_sort_Max) simp
  ultimately have "py_last (sort ?paths) = Some (Max (set ?paths))"
    by (simp add: py_last_eq)
  with a have "next_release ''_spice_v'' ?paths = Some (fmt03 (n + 1), fmt03 n)"
    by (simp add: next_release_def py_int_fmt03)
  then show "set_release fd wd m final_listing working_listing =
      \<lparr>release = fmt03 (n + 1), current_release = fmt03 n, increment = True\<rparr>"
    by (simp add: set_release_def)
next
  assume "literal_for_glob fd m \<and>
    set (filter (is_bundle_label m) final_listing) =
      bundle_label_name m ` {''001'', ''002'', ''003'', ''004'', ''005'', ''006'', ''007''}"
  then have labels: "set (filter (is_bundle_label m) final_listing) =
      bundle_label_name m ` {''001'', ''002'', ''003'', ''004'', ''005'', ''006'', ''007''}"
    by simp
  let ?pre = "fd @ ''/'' @ m @ ''_spice'' @ ''/'' @ ''bundle_'' @ m"
  let ?paths = "glob_bundle_labels fd m final_listing"
  have paths: "set ?paths =
      (\<lambda>k. ?pre @ ''_spice_v'' @ k @ ''.xml'') ` {''001'', ''002'', ''003'', ''004'', ''005'', ''006'', ''007''}"
    unfolding glob_bundle_labels_def set_map labels image_image bundle_label_name_def by simp
  have "py_last (sort ?paths) = Some (?pre @ ''_spice_v'' @ ''007'' @ ''.xml'')"
  proof (rule last_sort_greatest)
    show "?pre @ ''_spice_v'' @ ''007'' @ ''.xml'' \<in> set ?paths"
      unfolding paths by blast
    show "\<forall>x \<in> set ?paths. x \<le> ?pre @ ''_spice_v'' @ ''007'' @ ''.xml''"
      unfolding paths by (auto simp: append_le_append)
  qed
  moreover have "release_number ''_spice_v'' (?pre @ ''_spice_v'' @ ''007'' @ ''.xml'') = py_int ''007''"
    by (rule release_number_v00k) simp
  moreover have "py_int ''007'' = Some 7" by code_simp
  moreover have "fmt03 7 = ''007''" by code_simp
  moreover have "fmt03 (7 + 1) = ''008''" by code_simp
  ultimately have "next_release ''_spice_v'' ?paths = Some (''008'', ''007'')"
    by (simp add: next_release_def)
  then show "set_release fd wd m final_listing working_listing =
      \<lparr>release = ''008'', current_release = ''007'', increment = True\<rparr>"
    by (simp add: set_release_def)
qed

theorem set_release_final_area_witness:
  "set_release ''/final'' ''/work'' ''insight''
     [''bundle_insight_spice_v10.xml'', ''bundle_insight_spice_v9.xml''] [] =
   \<lparr>release = ''010'', current_release = ''009'', increment = True\<rparr> \<and>
   set_release ''/final'' ''/work'' ''insight''
     [''bundle_insight_spice_v001.xml'', ''bundle_insight_spice_v002.xml'',
      ''bundle_insight_spice_v003.xml'', ''bundle_insight_spice_v004.xml'',
      ''bundle_insight_spice_v005.xml'', ''bundle_insight_spice_v006.xml'',
      ''bundle_insight_spice_v007.xml'', ''readme.txt''] [] =
   \<lparr>release = ''008'', current_release = ''007'', increment = True\<rparr>"
proof -
  let ?two = "[''bundle_insight_spice_v10.xml'', ''bundle_insight_spice_v9.xml'']"
  have literal: "literal_for_glob ''/final'' ''insight''"
    by (simp add: literal_for_glob_def has_magic_def)
  have ascii: "\<forall>f \<in> set ?two. is_ascii f \<and> length f \<le> 255"
    by (simp add: is_ascii_def)
  have paths: "glob_bundle_labels ''/final'' ''insight'' ?two =
      [''/final/insight_spice/bundle_insight_spice_v10.xml'',
       ''/final/insight_spice/bundle_insight_spice_v9.xml'']"
    by (simp add: glob_bundle_labels_def is_bundle_label_def)
  have greatest: "Max (set [''/final/insight_spice/bundle_insight_spice_v10.xml'',
       ''/final/insight_spice/bundle_insight_spice_v9.xml'']) =
      ''/final/insight_spice/bundle_insight_spice_v9.xml''"
    by simp
  have number: "release_number ''_spice_v''
      ''/final/insight_spice/bundle_insight_spice_v9.xml'' = Some 9"
    by code_simp
  have nine: "fmt03 9 = ''009''" and ten: "fmt03 (9 + 1) = ''010''"
    by code_simp+
  have first: "set_release ''/final'' ''/work'' ''insight'' ?two [] =
      \<lparr>release = ''010'', current_release = ''009'', increment = True\<rparr>"
    using literal ascii
      set_release_final_area[of "''/final''" "''insight''" ?two 9 "''/work''" "[]"]
    unfolding paths greatest number nine ten by simp
  have second: "set_release ''/final'' ''/work'' ''insight''
     [''bundle_insight_spice_v001.xml'', ''bundle_insight_spice_v002.xml'',
      ''bundle_insight_spice_v003.xml'', ''bundle_insight_spice_v004.xml'',
      ''bundle_insight_spice_v005.xml'', ''bundle_insight_spice_v006.xml'',
      ''bundle_insight_spice_v007.xml'', ''readme.txt''] [] =
   \<lparr>release = ''008'', current_release = ''007'', increment = True\<rparr>"
    using literal set_release_final_area[of "''/final''" "''insight''"
      "[''bundle_insight_spice_v001.xml'', ''bundle_insight_spice_v002.xml'',
      ''bundle_insight_spice_v003.xml'', ''bundle_insight_spice_v004.xml'',
      ''bundle_insight_spice_v005.xml'', ''bundle_insight_spice_v006.xml'',
      ''bundle_insight_spice_v007.xml'', ''readme.txt'']" 0 "''/work''" "[]"]
    by (simp add: is_bundle_label_def bundle_label_name_def)
  from first second show ?thesis by (rule conjI)
qed

text \<open>
  The claim as the specification states it fails: with the labels of the releases 1 to 7
  in the final area, that of release 6 written \<open>v6\<close> and the others with three digits,
  the last path in string order is the one of release 6, and the release is 007.
\<close>

theorem set_release_numeric_order_counterexample:
  "set_release ''/final'' ''/work'' ''insight''
     [''bundle_insight_spice_v001.xml'', ''bundle_insight_spice_v002.xml'',
      ''bundle_insight_spice_v003.xml'', ''bundle_insight_spice_v004.xml'',
      ''bundle_insight_spice_v005.xml'', ''bundle_insight_spice_v6.xml'',
      ''bundle_insight_spice_v007.xml''] [] =
   \<lparr>release = ''007'', current_release = ''006'', increment = True\<rparr>"
  by code_simp



section \<open>Sequencing\<close>

lemma and_then_Inl: "and_then (Inl e) f = Inl e"
  by (simp add: and_then_def)

lemma and_then_Inr: "and_then (Inr x) f = f x"
  by (simp add: and_then_def)

lemma and_then_cases:
  "(\<And>x. \<exists>e. f x = Inl e) \<Longrightarrow> \<exists>e. and_then r f = Inl e"
  by (cases r) (simp_all add: and_then_def)

section \<open>The end of line\<close>

text \<open>
  Claim C10. The configured end of line \<open>CRLF\<close> gives the end-of-line string of the two
  characters carriage return and line feed, with length 2; \<open>LF\<close> gives the single line
  feed, with length 1; every other value raises the error of \<open>error_message\<close>, and the
  constructor returns nothing. Whenever a string is set, the recorded length is its
  length.
\<close>

theorem init_end_of_line_cases:
  "init_end_of_line ''CRLF'' = Inr ([CHR 0x0D, CHR 0x0A], 2) \<and>
   init_end_of_line ''LF'' = Inr ([CHR 0x0A], 1) \<and>
   (end_of_line \<noteq> ''CRLF'' \<and> end_of_line \<noteq> ''LF'' \<longrightarrow>
      init_end_of_line end_of_line =
        Inl (ErrorMessage ''End of Line provided via configuration is not CRLF nor LF'')) \<and>
   (init_end_of_line end_of_line = Inr (eol, eol_len) \<longrightarrow> length eol = eol_len)"
  by (auto simp: init_end_of_line_def error_message_def split: if_splits)

theorem init_end_of_line_cases_witness:
  "init_end_of_line ''CR'' =
     Inl (ErrorMessage ''End of Line provided via configuration is not CRLF nor LF'') \<and>
   init_end_of_line ''CRLF'' = Inr ([CHR 0x0D, CHR 0x0A], 2) \<and> length [CHR 0x0D, CHR 0x0A] = 2"
  using init_end_of_line_cases[of "''CR''"] init_end_of_line_cases[of "''CRLF''" "[CHR 0x0D, CHR 0x0A]" 2]
  by simp

section \<open>The pair of increment times\<close>

text \<open>
  Claim C9, as the code has it. The test of the pair runs only when both attributes
  exist: it raises exactly when both \<open>increment_start\<close> and \<open>increment_finish\<close> are set
  and one of them is empty while the other is not; in every other case, also when one of
  the two attributes does not exist at all, it passes. When it raises,
  \<open>check_configuration\<close> ends with an error, whatever the later checks would give.
\<close>

theorem check_increment_pair_iff:
  "check_increment_pair s =
     (if \<exists>start finish. increment_start s = Some start \<and> increment_finish s = Some finish \<and>
           ((start = [] \<and> finish \<noteq> []) \<or> (start \<noteq> [] \<and> finish = []))
      then Inl (ErrorMessage (''If provided via configuration, increment_start and '' @
             ''increment_finish parameters need to be provided together.''))
      else Inr ()) \<and>
   (check_increment_pair s = Inl e \<longrightarrow>
      (\<exists>e'. check_configuration s directories_and_templates mk = Inl e'))"
proof
  show "check_increment_pair s =
     (if \<exists>start finish. increment_start s = Some start \<and> increment_finish s = Some finish \<and>
           ((start = [] \<and> finish \<noteq> []) \<or> (start \<noteq> [] \<and> finish = []))
      then Inl (ErrorMessage (''If provided via configuration, increment_start and '' @
             ''increment_finish parameters need to be provided together.''))
      else Inr ())"
    by (auto simp: check_increment_pair_def error_message_def split: option.splits)
  show "check_increment_pair s = Inl e \<longrightarrow>
      (\<exists>e'. check_configuration s directories_and_templates mk = Inl e')"
  proof
    assume pair: "check_increment_pair s = Inl e"
    have "\<exists>e'. check_configuration_dates s = Inl e'"
      unfolding check_configuration_dates_def
      by ((rule and_then_cases | clarsimp simp: pair)+)
    then show "\<exists>e'. check_configuration s directories_and_templates mk = Inl e'"
      by (auto simp: check_configuration_def and_then_Inl)
  qed
qed

theorem check_increment_pair_iff_witness:
  "check_increment_pair
     \<lparr>date_format = ''infomod2'', mission_start = Some ''2018-05-05T11:05:00.000Z'',
      mission_finish = Some ''2050-01-01T00:00:00.000Z'',
      increment_start = Some ''2020-01-01T00:00:00.000Z'', increment_finish = Some []\<rparr> =
     Inl (ErrorMessage (''If provided via configuration, increment_start and '' @
            ''increment_finish parameters need to be provided together.'')) \<and>
   (\<exists>e'. check_configuration
     \<lparr>date_format = ''infomod2'', mission_start = Some ''2018-05-05T11:05:00.000Z'',
      mission_finish = Some ''2050-01-01T00:00:00.000Z'',
      increment_start = Some ''2020-01-01T00:00:00.000Z'', increment_finish = Some []\<rparr>
     (Inr ()) None = Inl e')"
  using check_increment_pair_iff[where s =
      "\<lparr>date_format = ''infomod2'', mission_start = Some ''2018-05-05T11:05:00.000Z'',
        mission_finish = Some ''2050-01-01T00:00:00.000Z'',
        increment_start = Some ''2020-01-01T00:00:00.000Z'', increment_finish = Some []\<rparr>"
      and e = "ErrorMessage (''If provided via configuration, increment_start and '' @
            ''increment_finish parameters need to be provided together.'')"
      and directories_and_templates = "Inr ()" and mk = None]
  by simp

text \<open>
  The claim as the specification states it fails: a configuration that provides
  \<open>increment_start\<close> and no \<open>increment_finish\<close> element passes the whole of
  \<open>check_configuration\<close>.
\<close>

theorem check_configuration_single_bound_counterexample:
  "check_configuration
     \<lparr>date_format = ''infomod2'', mission_start = Some ''2018-05-05T11:05:00.000Z'',
      mission_finish = Some ''2050-01-01T00:00:00.000Z'',
      increment_start = Some ''2020-01-01T00:00:00.000Z'', increment_finish = None\<rparr>
     (Inr ()) None = Inr []"
  by code_simp

section \<open>Meta-kernel name templates\<close>

lemma working_copy_Nil: "working_copy name [] = name"
  by (simp add: working_copy_def)

lemma working_copy_Cons:
  "working_copy name (p # ps) = working_copy (py_replace (CHR ''$'' # p) [] name) ps"
  by (simp add: working_copy_def)

lemma check_patterns_Inr:
  "check_patterns w ps = Inr w' \<Longrightarrow>
   w' = working_copy w ps \<and>
   (\<forall>pre p post. ps = pre @ p # post \<longrightarrow> py_in p (working_copy w pre))"
proof (induction ps arbitrary: w)
  case Nil
  then show ?case by (simp add: working_copy_Nil)
next
  case (Cons q ps)
  from Cons.prems have present: "py_in q w"
    and rest: "check_patterns (py_replace (CHR ''$'' # q) [] w) ps = Inr w'"
    by (auto simp: error_message_def split: if_splits)
  from Cons.IH[OF rest] have w': "w' = working_copy (py_replace (CHR ''$'' # q) [] w) ps"
    and all: "\<And>pre p post. ps = pre @ p # post \<Longrightarrow>
                py_in p (working_copy (py_replace (CHR ''$'' # q) [] w) pre)"
    by blast+
  have "py_in p (working_copy w pre)" if "q # ps = pre @ p # post" for pre p post
  proof (cases pre)
    case Nil
    with that present show ?thesis by (simp add: working_copy_Nil)
  next
    case (Cons a pre')
    with that have "a = q" and "ps = pre' @ p # post" by simp_all
    with all[of pre' p post] Cons show ?thesis by (simp add: working_copy_Cons)
  qed
  with w' show ?case by (simp add: working_copy_Cons)
qed

lemma check_patterns_Inl:
  "check_patterns w ps = Inl e \<Longrightarrow>
   \<exists>pre p post. ps = pre @ p # post \<and> \<not> py_in p (working_copy w pre) \<and>
     e = ErrorMessage (''The meta-kernel pattern '' @ p @ '' is not provided'')"
proof (induction ps arbitrary: w)
  case Nil
  then show ?case by simp
next
  case (Cons q ps)
  show ?case
  proof (cases "py_in q w")
    case False
    with Cons.prems have "e = ErrorMessage (''The meta-kernel pattern '' @ q @ '' is not provided'')"
      by (simp add: error_message_def)
    with False have "q # ps = [] @ q # ps \<and> \<not> py_in q (working_copy w []) \<and>
      e = ErrorMessage (''The meta-kernel pattern '' @ q @ '' is not provided'')"
      by (simp add: working_copy_Nil)
    then show ?thesis by blast
  next
    case True
    with Cons.prems have "check_patterns (py_replace (CHR ''$'' # q) [] w) ps = Inl e" by simp
    from Cons.IH[OF this] obtain pre p post where
      "ps = pre @ p # post" "\<not> py_in p (working_copy (py_replace (CHR ''$'' # q) [] w) pre)"
      "e = ErrorMessage (''The meta-kernel pattern '' @ p @ '' is not provided'')" by blast
    then have "q # ps = (q # pre) @ p # post \<and> \<not> py_in p (working_copy w (q # pre)) \<and>
      e = ErrorMessage (''The meta-kernel pattern '' @ p @ '' is not provided'')"
      by (simp add: working_copy_Cons)
    then show ?thesis by blast
  qed
qed

lemma not_provided_neq_unresolved:
  "''The meta-kernel pattern '' @ p @ '' is not provided'' \<noteq>
   ''The meta-kernel patterns for are not defined via configuration''"
proof
  assume "''The meta-kernel pattern '' @ p @ '' is not provided'' =
   ''The meta-kernel patterns for are not defined via configuration''"
  then have "last (''The meta-kernel pattern '' @ p @ '' is not provided'') =
   last ''The meta-kernel patterns for are not defined via configuration''" by (rule arg_cong)
  then show False by simp
qed

text \<open>
  Claim C4, as the code has it. The patterns are checked in the order of their
  declaration, each against the working copy left by the patterns before it, and the
  first error ends the check. The check raises ``pattern is not provided'' exactly when
  some declared pattern is not found in the working copy at its turn; otherwise it raises
  ``patterns are not defined'' exactly when a \<open>$\<close> is left in the working copy after all
  declared patterns have been removed; otherwise it succeeds.
\<close>

theorem check_metak_outcome:
  "((\<exists>p. check_metak mk =
        Inl (ErrorMessage (''The meta-kernel pattern '' @ p @ '' is not provided''))) =
      absent_at_turn (mk_name mk) (mk_patterns mk)) \<and>
   ((check_metak mk =
        Inl (ErrorMessage ''The meta-kernel patterns for are not defined via configuration'')) =
      (\<not> absent_at_turn (mk_name mk) (mk_patterns mk) \<and>
       CHR ''$'' \<in> set (working_copy (mk_name mk) (mk_patterns mk)))) \<and>
   ((check_metak mk = Inr ()) =
      (\<not> absent_at_turn (mk_name mk) (mk_patterns mk) \<and>
       CHR ''$'' \<notin> set (working_copy (mk_name mk) (mk_patterns mk))))"
proof (cases "check_patterns (mk_name mk) (mk_patterns mk)")
  case (Inl e)
  from check_patterns_Inl[OF Inl] obtain pre p post where
    split: "mk_patterns mk = pre @ p # post" "\<not> py_in p (working_copy (mk_name mk) pre)"
    and e: "e = ErrorMessage (''The meta-kernel pattern '' @ p @ '' is not provided'')" by blast
  from split have absent: "absent_at_turn (mk_name mk) (mk_patterns mk)"
    unfolding absent_at_turn_def by blast
  have res: "check_metak mk = Inl (ErrorMessage (''The meta-kernel pattern '' @ p @ '' is not provided''))"
    by (simp add: check_metak_def Inl and_then_Inl e)
  show ?thesis
    using absent res not_provided_neq_unresolved[of p] by auto
next
  case (Inr w)
  from check_patterns_Inr[OF Inr] have w: "w = working_copy (mk_name mk) (mk_patterns mk)"
    and present: "\<not> absent_at_turn (mk_name mk) (mk_patterns mk)"
    unfolding absent_at_turn_def by blast+
  have res: "check_metak mk =
    (if CHR ''$'' \<in> set (working_copy (mk_name mk) (mk_patterns mk))
     then Inl (ErrorMessage ''The meta-kernel patterns for are not defined via configuration'')
     else Inr ())"
    by (simp add: check_metak_def Inr and_then_Inr w error_message_def)
  show ?thesis
    using present res not_provided_neq_unresolved by auto
qed

theorem check_metak_outcome_witness:
  "\<not> absent_at_turn ''insight_$YEAR_v$VERSION.tm'' [''VERSION'', ''YEAR''] \<and>
   CHR ''$'' \<notin> set (working_copy ''insight_$YEAR_v$VERSION.tm'' [''VERSION'', ''YEAR'']) \<and>
   absent_at_turn ''insight_$YEAR.tm'' [''YEAR'', ''VERSION'']"
proof -
  have "check_metak \<lparr>mk_name = ''insight_$YEAR_v$VERSION.tm'',
                     mk_patterns = [''VERSION'', ''YEAR'']\<rparr> = Inr ()"
    by code_simp
  moreover have "check_metak \<lparr>mk_name = ''insight_$YEAR.tm'',
                     mk_patterns = [''YEAR'', ''VERSION'']\<rparr> =
      Inl (ErrorMessage (''The meta-kernel pattern '' @ ''VERSION'' @ '' is not provided''))"
    by code_simp
  ultimately show ?thesis
    using
      check_metak_outcome[of "\<lparr>mk_name = ''insight_$YEAR_v$VERSION.tm'',
                     mk_patterns = [''VERSION'', ''YEAR'']\<rparr>"]
      check_metak_outcome[of "\<lparr>mk_name = ''insight_$YEAR.tm'',
                     mk_patterns = [''YEAR'', ''VERSION'']\<rparr>"]
    by (simp del: working_copy_Nil)
qed

text \<open>
  The claim as the specification states it fails in three ways. With the template
  \<open>$XY\<close> and the patterns \<open>XY\<close> and \<open>Y\<close>, both patterns occur in the template and no
  \<open>$\<close> is left, yet the check raises ``pattern Y is not provided'', since \<open>Y\<close> is looked
  up after \<open>$XY\<close> has been removed. With the template \<open>$A\<close> and the pattern \<open>B\<close> a
  \<open>$\<close> is left, yet the error is ``pattern B is not provided'' and the second condition
  is never tested. With the template \<open>A$XB\<close> and the patterns \<open>X\<close> and \<open>AB\<close>, the
  pattern \<open>AB\<close> does not occur in the template, yet the check succeeds, since removing
  \<open>$X\<close> leaves \<open>AB\<close>.
\<close>

theorem check_metak_independent_counterexample:
  "py_in ''XY'' ''$XY'' \<and> py_in ''Y'' ''$XY'' \<and>
   CHR ''$'' \<notin> set (working_copy ''$XY'' [''XY'', ''Y'']) \<and>
   check_metak \<lparr>mk_name = ''$XY'', mk_patterns = [''XY'', ''Y'']\<rparr> =
     Inl (ErrorMessage ''The meta-kernel pattern Y is not provided'') \<and>
   CHR ''$'' \<in> set (working_copy ''$A'' [''B'']) \<and>
   check_metak \<lparr>mk_name = ''$A'', mk_patterns = [''B'']\<rparr> =
     Inl (ErrorMessage ''The meta-kernel pattern B is not provided'') \<and>
   \<not> py_in ''AB'' ''A$XB'' \<and>
   check_metak \<lparr>mk_name = ''A$XB'', mk_patterns = [''X'', ''AB'']\<rparr> = Inr ()"
  by code_simp

section \<open>Kernel resolution\<close>

lemma filter_search_total:
  "\<forall>f \<in> set names. re_search env pattern f \<noteq> None \<Longrightarrow>
   filter_search env pattern names = Inr (matching_names env pattern names)"
  by (induction names) (auto simp: matching_names_def and_then_Inr)

lemma patterns_of_Nil: "patterns_of wanted [] = []"
  by (simp add: patterns_of_def)

lemma patterns_of_Cons:
  "patterns_of wanted ((ktype, v) # rest) =
     (if wanted ktype then as_list v @ patterns_of wanted rest else patterns_of wanted rest)"
  by (simp add: patterns_of_def)

lemma collect_patterns_eq:
  "collect_patterns kernels_to_load st =
     st\<lparr>fk_patterns := fk_patterns st @ patterns_of is_fk kernels_to_load,
        sclk_patterns := sclk_patterns st @ patterns_of is_sclk kernels_to_load,
        pck_patterns := pck_patterns st @ patterns_of is_pck kernels_to_load,
        lsk_patterns := lsk_patterns st @ patterns_of is_lsk kernels_to_load,
        lsk_var := (if patterns_of is_lsk kernels_to_load = [] then lsk_var st
                    else Some (last (patterns_of is_lsk kernels_to_load)))\<rparr>"
proof (induction kernels_to_load arbitrary: st)
  case Nil
  then show ?case by (simp add: patterns_of_Nil)
next
  case (Cons entry rest)
  obtain ktype v where entry: "entry = (ktype, v)" by (cases entry)
  consider (fk) "py_in ''fk'' ktype"
    | (sclk) "\<not> py_in ''fk'' ktype" "py_in ''sclk'' ktype"
    | (pck) "\<not> py_in ''fk'' ktype" "\<not> py_in ''sclk'' ktype" "py_in ''pck'' ktype"
    | (lsk) "\<not> py_in ''fk'' ktype" "\<not> py_in ''sclk'' ktype" "\<not> py_in ''pck'' ktype"
        "py_in ''lsk'' ktype"
    | (other) "\<not> py_in ''fk'' ktype" "\<not> py_in ''sclk'' ktype" "\<not> py_in ''pck'' ktype"
        "\<not> py_in ''lsk'' ktype"
    by blast
  then show ?case
  proof cases
    case fk
    then have "is_fk ktype" "\<not> is_sclk ktype" "\<not> is_pck ktype" "\<not> is_lsk ktype"
      by (simp_all add: is_fk_def is_sclk_def is_pck_def is_lsk_def)
    with fk show ?thesis
      unfolding entry collect_patterns.simps Cons.IH by (simp add: patterns_of_Cons)
  next
    case sclk
    then have "\<not> is_fk ktype" "is_sclk ktype" "\<not> is_pck ktype" "\<not> is_lsk ktype"
      by (simp_all add: is_fk_def is_sclk_def is_pck_def is_lsk_def)
    with sclk show ?thesis
      unfolding entry collect_patterns.simps Cons.IH by (simp add: patterns_of_Cons)
  next
    case pck
    then have "\<not> is_fk ktype" "\<not> is_sclk ktype" "is_pck ktype" "\<not> is_lsk ktype"
      by (simp_all add: is_fk_def is_sclk_def is_pck_def is_lsk_def)
    with pck show ?thesis
      unfolding entry collect_patterns.simps Cons.IH by (simp add: patterns_of_Cons)
  next
    case lsk
    then have "\<not> is_fk ktype" "\<not> is_sclk ktype" "\<not> is_pck ktype" "is_lsk ktype"
      by (simp_all add: is_fk_def is_sclk_def is_pck_def is_lsk_def)
    with lsk show ?thesis
      unfolding entry collect_patterns.simps Cons.IH by (simp add: patterns_of_Cons)
  next
    case other
    then have "\<not> is_fk ktype" "\<not> is_sclk ktype" "\<not> is_pck ktype" "\<not> is_lsk ktype"
      by (simp_all add: is_fk_def is_sclk_def is_pck_def is_lsk_def)
    with other show ?thesis
      unfolding entry collect_patterns.simps Cons.IH by (simp add: patterns_of_Cons)
  qed
qed

lemma resolve_pattern_step:
  assumes "search_succeeds env kernels_directory subdir pattern"
  shows "resolve_pattern env kernels_directory subdir pattern (selected, furnished) =
           Inr (selected @ selected_kernels env kernels_directory subdir [pattern],
                furnished @ kernel_files env kernels_directory subdir [pattern])"
proof (cases "path_exists env pattern")
  case True
  with assms show ?thesis
    by (simp add: search_succeeds_def resolve_pattern_def furnsh_def and_then_Inr
        selected_kernels_def kernel_files_def selected_kernel_def kernel_file_def
        map_filter_simps)
next
  case False
  with assms obtain names where
    names: "listdir env (kernels_directory @ ''/'' @ subdir @ ''/'') = Some names"
    and total: "\<forall>f \<in> set names. re_search env pattern f \<noteq> None"
    and loads: "case kernel_file env kernels_directory subdir pattern of
                None \<Rightarrow> True | Some path \<Rightarrow> furnsh_ok env path"
    by (auto simp: search_succeeds_def list_all_iff split: option.splits)
  have fs: "filter_search env pattern names = Inr (matching_names env pattern names)"
    using total by (rule filter_search_total)
  let ?c = "matching_names env pattern names"
  have cands: "candidates env kernels_directory subdir pattern = ?c"
    using names by (simp add: candidates_def)
  show ?thesis
  proof (cases "?c = []")
    case True
    with False names fs cands show ?thesis
      by (simp add: resolve_pattern_def and_then_Inr selected_kernels_def kernel_files_def
          selected_kernel_def kernel_file_def map_filter_simps)
  next
    case nonempty: False
    have "last (if 1 < length ?c then sort ?c else ?c) = last (sort ?c)"
      by (simp add: sort_short)
    also have "\<dots> = Max (set ?c)" using nonempty by (rule last_sort_Max)
    finally have l: "last (if 1 < length ?c then sort ?c else ?c) = Max (set ?c)" .
    have ok: "furnsh_ok env (kernels_directory @ ''/'' @ subdir @ ''/'' @ Max (set ?c))"
      using loads False nonempty cands
      by (simp add: kernel_file_def selected_kernel_def)
    show ?thesis
      using False names fs cands nonempty l ok
      by (simp add: resolve_pattern_def and_then_Inr furnsh_def Let_def selected_kernels_def
          kernel_files_def selected_kernel_def kernel_file_def map_filter_simps
          del: set_filter)
  qed
qed

lemma map_filter_append_one:
  "List.map_filter f (x # xs) = List.map_filter f [x] @ List.map_filter f xs"
  by (simp add: map_filter_simps split: option.split)

lemma resolve_patterns_eq:
  "\<forall>p \<in> set patterns. search_succeeds env kernels_directory subdir p \<Longrightarrow>
   resolve_patterns env kernels_directory subdir patterns (selected, furnished) =
     Inr (selected @ selected_kernels env kernels_directory subdir patterns,
          furnished @ kernel_files env kernels_directory subdir patterns)"
proof (induction patterns arbitrary: selected furnished)
  case Nil
  then show ?case by (simp add: selected_kernels_def kernel_files_def map_filter_simps)
next
  case (Cons p patterns)
  then have step: "resolve_pattern env kernels_directory subdir p (selected, furnished) =
           Inr (selected @ selected_kernels env kernels_directory subdir [p],
                furnished @ kernel_files env kernels_directory subdir [p])"
    by (intro resolve_pattern_step) simp
  have rest: "\<forall>q \<in> set patterns. search_succeeds env kernels_directory subdir q"
    using Cons.prems by simp
  show ?case
    unfolding resolve_patterns.simps step and_then_Inr Cons.IH[OF rest]
    unfolding selected_kernels_def kernel_files_def
    by (simp split: option.split)
qed

text \<open>
  Claim C5. Whenever \<open>load_kernels\<close> resolves every configured pattern without an error
  and returns, the kernels it selects for each kernel type are those the specification
  describes, pattern by pattern in the order of the configuration. A pattern that is the
  path of an existing file is selected as it is and given to SPICE, whatever the
  directories hold (none is listed for it). Any other pattern is searched for in the
  listing of the subdirectory of its kernel type: the candidates are exactly the names
  that contain a match of the pattern; with no candidate the pattern adds nothing, and
  otherwise the candidate that is last in the order of strings is selected and its file
  in the subdirectory is given to SPICE.
\<close>

theorem load_kernels_selection:
  assumes "\<forall>p \<in> set (patterns_of is_lsk kernels_to_load).
             search_succeeds env kernels_directory ''lsk'' p"
    and "\<forall>p \<in> set (patterns_of is_pck kernels_to_load).
             search_succeeds env kernels_directory ''pck'' p"
    and "\<forall>p \<in> set (patterns_of is_fk kernels_to_load).
             search_succeeds env kernels_directory ''fk'' p"
    and "\<forall>p \<in> set (patterns_of is_sclk kernels_to_load).
             search_succeeds env kernels_directory ''sclk'' p"
    and "patterns_of is_lsk kernels_to_load \<noteq> []"
    and "length (selected_kernels env kernels_directory ''lsk''
                   (patterns_of is_lsk kernels_to_load)) \<le> 1"
  shows "load_kernels env kernels_directory kernels_to_load =
    Inr \<lparr>self_fks =
           selected_kernels env kernels_directory ''fk'' (patterns_of is_fk kernels_to_load),
         self_sclks =
           selected_kernels env kernels_directory ''sclk'' (patterns_of is_sclk kernels_to_load),
         self_lsk = last (patterns_of is_lsk kernels_to_load),
         spice_pool =
           kernel_files env kernels_directory ''lsk'' (patterns_of is_lsk kernels_to_load) @
           kernel_files env kernels_directory ''pck'' (patterns_of is_pck kernels_to_load) @
           kernel_files env kernels_directory ''fk'' (patterns_of is_fk kernels_to_load) @
           kernel_files env kernels_directory ''sclk'' (patterns_of is_sclk kernels_to_load),
         messages =
           [if last (patterns_of is_lsk kernels_to_load) = [] then (ERROR, Not_found ''LSK'')
            else (INFO, Loaded ''LSK''
                    (selected_kernels env kernels_directory ''lsk''
                       (patterns_of is_lsk kernels_to_load))),
            report WARNING ''PCK''
              (selected_kernels env kernels_directory ''pck'' (patterns_of is_pck kernels_to_load)),
            report WARNING ''FK''
              (selected_kernels env kernels_directory ''fk'' (patterns_of is_fk kernels_to_load)),
            report ERROR ''SCLK''
              (selected_kernels env kernels_directory ''sclk''
                 (patterns_of is_sclk kernels_to_load))]\<rparr>"
  using assms
  by (simp add: load_kernels_def collect_patterns_eq resolve_patterns_eq and_then_Inr Let_def)

theorem load_kernels_selection_witness:
  "load_kernels
     \<lparr>path_exists = (\<lambda>p. p = ''/data/insight_v05.tf''),
      listdir = (\<lambda>d. if d = ''kernels/lsk/''
                       then Some [''naif0012.tls'', ''readme.txt'', ''naif0011.tls'']
                     else if d = ''kernels/fk/''
                       then Some [''insight_v04.tf'', ''insight_v06.tf'', ''marco.tf'']
                     else None),
      re_search = (\<lambda>p f. Some (py_in p f)), furnsh_ok = (\<lambda>path. True)\<rparr>
     ''kernels''
     [(''lsk'', Single ''naif''), (''fk'', Many [''/data/insight_v05.tf'', ''insight'', ''maven''])] =
   Inr \<lparr>self_fks = [''/data/insight_v05.tf'', ''insight_v06.tf''], self_sclks = [],
        self_lsk = ''naif'',
        spice_pool = [''kernels/lsk/naif0012.tls'', ''/data/insight_v05.tf'',
                      ''kernels/fk/insight_v06.tf''],
        messages = [(INFO, Loaded ''LSK'' [''naif0012.tls'']), (WARNING, Not_found ''PCK''),
                    (INFO, Loaded ''FK'' [''/data/insight_v05.tf'', ''insight_v06.tf'']),
                    (ERROR, Not_found ''SCLK'')]\<rparr>"
  by (rule trans, rule load_kernels_selection) code_simp+


section \<open>The times of the archive\<close>

text \<open>
  Claim C2. When the four times of the configuration can be converted, \<open>check_times\<close>
  succeeds if and only if the mission starts before the increment starts, the increment
  does not finish before it starts, the increment does not finish after the mission, and
  the mission starts before it finishes; otherwise it raises the error that tells to
  check the archive coverage.
\<close>

theorem check_times_iff:
  assumes "mission_start s = Some ms" and "utc2et ms = Inr t0"
    and "increment_start s = Some is" and "utc2et is = Inr t1"
    and "increment_finish s = Some fi" and "utc2et fi = Inr t2"
    and "mission_finish s = Some mf" and "utc2et mf = Inr t3"
  shows "check_times utc2et s =
           (if t0 < t1 \<and> t1 \<le> t2 \<and> t2 \<le> t3 \<and> t0 < t3 then Inr ()
            else Inl (ErrorMessage ''-- Provided dates are note correct. Check the archive coverage''))"
  using assms
  by (simp add: check_times_def utc2et_attribute_def get_attribute_def and_then_def
      error_message_def)

theorem check_times_iff_witness:
  "check_times (\<lambda>v. Inr (length v))
     \<lparr>date_format = ''infomod2'', mission_start = Some ''a'', mission_finish = Some ''abcd'',
      increment_start = Some ''ab'', increment_finish = Some ''abc''\<rparr> = Inr () \<and>
   check_times (\<lambda>v. Inr (length v))
     \<lparr>date_format = ''infomod2'', mission_start = Some ''a'', mission_finish = Some ''abcd'',
      increment_start = Some ''abc'', increment_finish = Some ''ab''\<rparr> =
     Inl (ErrorMessage ''-- Provided dates are note correct. Check the archive coverage'')"
  using
    check_times_iff[of "\<lparr>date_format = ''infomod2'', mission_start = Some ''a'',
        mission_finish = Some ''abcd'', increment_start = Some ''ab'',
        increment_finish = Some ''abc''\<rparr>" "''a''" "\<lambda>v. Inr (length v)" 1 "''ab''" 2 "''abc''" 3 "''abcd''" 4]
    check_times_iff[of "\<lparr>date_format = ''infomod2'', mission_start = Some ''a'',
        mission_finish = Some ''abcd'', increment_start = Some ''abc'',
        increment_finish = Some ''ab''\<rparr>" "''a''" "\<lambda>v. Inr (length v)" 1 "''abc''" 3 "''ab''" 2 "''abcd''" 4]
  by simp

section \<open>Matching a file name against a template\<close>

text \<open>
  Claim C3. The file name \<open>insight_2021_v02.tm\<close> matched against the template
  \<open>insight_$YEAR_v$VERSION.tm\<close>, with the fields \<open>VERSION\<close> of length 2 and \<open>YEAR\<close> of
  length 4 declared in that order, gives \<open>YEAR\<close> bound to \<open>2021\<close> and then \<open>VERSION\<close>
  bound to \<open>02\<close>, in the order of the template; with \<open>VERSION\<close> alone declared the
  match fails with the error of an undefined field.
\<close>

theorem match_patterns_insight:
  "match_patterns ''insight_2021_v02.tm'' ''insight_$YEAR_v$VERSION.tm''
     [\<lparr>field_name = ''VERSION'', field_length = 2\<rparr>, \<lparr>field_name = ''YEAR'', field_length = 4\<rparr>] =
     Inr [(''YEAR'', ''2021''), (''VERSION'', ''02'')] \<and>
   match_patterns ''insight_2021_v02.tm'' ''insight_$YEAR_v$VERSION.tm''
     [\<lparr>field_name = ''VERSION'', field_length = 2\<rparr>] = Inl UndefinedFieldError"
  by code_simp

end
